theory Spec2Isabelle
  imports Main
begin

section \<open>Python text\<close>

text \<open>
  A Python \<open>str\<close> is a sequence of Unicode code points; a code point is a natural
  number and a string is a list of them. \<open>ord\<close> reads a code point as an integer and
  \<open>chr\<close> goes back. Every \<open>chr\<close> call of the ciphers has the form
  \<open>chr(mod(..., 26) + ord('A'))\<close>, whose argument lies in 65..90, so the
  \<open>ValueError\<close> of \<open>chr\<close> on an argument outside the Unicode range has no branch here.
\<close>

type_synonym str = "nat list"

definition lit :: "string \<Rightarrow> str" where
  "lit s = map of_char s"

definition ord :: "nat \<Rightarrow> int" where
  "ord c = int c"

definition chr :: "int \<Rightarrow> nat" where
  "chr i = nat i"

text \<open>
  \<open>str.isalpha\<close> and \<open>str.upper\<close> are Unicode aware. The two tables below are
  Python's on the code points U+0000 to U+00FF (ASCII and Latin-1) and on the two
  upper-case images that leave that range (U+0178 and U+039C); on that fragment
  \<open>upper\<close> maps one code point to one or two code points (\<open>'\<ss>'.upper() == 'SS'\<close>).
  Code points beyond the fragment are left alone and counted as non-letters, so
  the theorems that depend on the tables restrict the text to ASCII.
\<close>

definition isalpha :: "nat \<Rightarrow> bool" where
  "isalpha c \<longleftrightarrow>
     (65 \<le> c \<and> c \<le> 90) \<or> (97 \<le> c \<and> c \<le> 122) \<or>
     c = 170 \<or> c = 181 \<or> c = 186 \<or>
     (192 \<le> c \<and> c \<le> 214) \<or> (216 \<le> c \<and> c \<le> 246) \<or> (248 \<le> c \<and> c \<le> 255) \<or>
     c = 376 \<or> c = 924"

definition upper_char :: "nat \<Rightarrow> str" where
  "upper_char c =
     (if 97 \<le> c \<and> c \<le> 122 then [c - 32]
      else if c = 181 then [924]
      else if c = 223 then [83, 83]
      else if (224 \<le> c \<and> c \<le> 246) \<or> (248 \<le> c \<and> c \<le> 254) then [c - 32]
      else if c = 255 then [376]
      else [c])"

definition upper :: "str \<Rightarrow> str" where
  "upper s = concat (map upper_char s)"

definition ord_A :: int where
  "ord_A = ord (of_char CHR ''A'')"

section \<open>Modular arithmetic kernel (math_utils.py)\<close>

text \<open>
  Python's \<open>%\<close> and \<open>//\<close> on integers are floor division, as \<open>mod\<close> and \<open>div\<close> on
  \<open>int\<close> are. Every call of \<open>mod\<close>, \<open>matrix_multiply_mod\<close> and
  \<open>matrix_vector_multiply_mod\<close> in the repository passes the modulus 26, so the
  \<open>ZeroDivisionError\<close> of a zero modulus has no branch here.
\<close>

definition mod_py :: "int \<Rightarrow> int \<Rightarrow> int" where
  "mod_py n m = ((n mod m) + m) mod m"

function gcd_loop :: "int \<Rightarrow> int \<Rightarrow> int" where
  "gcd_loop a b = (if b \<noteq> 0 then gcd_loop b (a mod b) else a)"
  by pat_completeness auto
termination
  by (relation "measure (\<lambda>(a, b). nat \<bar>b\<bar>)") (auto simp: abs_mod_less)

definition gcd_py :: "int \<Rightarrow> int \<Rightarrow> int" where
  "gcd_py a b = gcd_loop \<bar>a\<bar> \<bar>b\<bar>"

function extended_gcd :: "int \<Rightarrow> int \<Rightarrow> int \<times> int \<times> int" where
  "extended_gcd a b =
     (if a = 0 then (b, 0, 1)
      else (let (gcd_val, x1, y1) = extended_gcd (b mod a) a;
                x = y1 - (b div a) * x1;
                y = x1
            in (gcd_val, x, y)))"
  by pat_completeness auto
termination
  by (relation "measure (\<lambda>(a, b). nat \<bar>a\<bar>)") (auto simp: abs_mod_less)

definition mod_inverse :: "int \<Rightarrow> int \<Rightarrow> int option" where
  "mod_inverse a m =
     (let (gcd_val, x, _) = extended_gcd (mod_py a m) m
      in if gcd_val \<noteq> 1 then None else Some (mod_py x m))"

section \<open>Exceptions and indexing\<close>

text \<open>
  A function that can raise returns \<open>py_error + 'a\<close>, with \<open>Inl\<close> the exception.
  \<open>getitem\<close> is \<open>xs[i]\<close>: an index below zero counts from the end of the list and an
  index outside the list raises \<open>IndexError\<close>. \<open>TypeError\<close> is what subscripting
  or multiplying \<open>None\<close> raises.
\<close>

datatype py_error = IndexError | TypeError

definition bind_py :: "py_error + 'a \<Rightarrow> ('a \<Rightarrow> py_error + 'b) \<Rightarrow> py_error + 'b" where
  "bind_py m f = (case m of Inl e \<Rightarrow> Inl e | Inr x \<Rightarrow> f x)"

definition getitem :: "'a list \<Rightarrow> int \<Rightarrow> py_error + 'a" where
  "getitem xs i =
     (if 0 \<le> i \<and> i < int (length xs) then Inr (xs ! nat i)
      else if i < 0 \<and> 0 \<le> int (length xs) + i then Inr (xs ! nat (int (length xs) + i))
      else Inl IndexError)"

definition entry :: "'a list list \<Rightarrow> int \<Rightarrow> int \<Rightarrow> py_error + 'a" where
  "entry M i j = bind_py (getitem M i) (\<lambda>row. getitem row j)"

section \<open>Matrix kernel (math_utils.py)\<close>

text \<open>
  A matrix is a list of rows, as in the source. Each kernel function reads the four
  entries \<open>M[0][0]\<close>, \<open>M[0][1]\<close>, \<open>M[1][0]\<close>, \<open>M[1][1]\<close> of every matrix it is given
  and does nothing else that can fail, so it raises \<open>IndexError\<close> exactly when one of
  those reads is out of range; \<open>entries_2x2\<close> is that group of reads.
\<close>

definition entries_2x2 :: "int list list \<Rightarrow> py_error + (int \<times> int \<times> int \<times> int)" where
  "entries_2x2 M =
     bind_py (entry M 0 0) (\<lambda>m00. bind_py (entry M 0 1) (\<lambda>m01.
     bind_py (entry M 1 0) (\<lambda>m10. bind_py (entry M 1 1) (\<lambda>m11. Inr (m00, m01, m10, m11)))))"

definition matrix_multiply_mod :: "int list list \<Rightarrow> int list list \<Rightarrow> int \<Rightarrow> py_error + int list list" where
  "matrix_multiply_mod A B m =
     bind_py (entries_2x2 A) (\<lambda>(a00, a01, a10, a11).
     bind_py (entries_2x2 B) (\<lambda>(b00, b01, b10, b11).
       Inr [[mod_py (a00 * b00 + a01 * b10) m, mod_py (a00 * b01 + a01 * b11) m],
            [mod_py (a10 * b00 + a11 * b10) m, mod_py (a10 * b01 + a11 * b11) m]]))"

definition matrix_vector_multiply_mod :: "int list list \<Rightarrow> int list \<Rightarrow> int \<Rightarrow> py_error + int list" where
  "matrix_vector_multiply_mod M v m =
     bind_py (entries_2x2 M) (\<lambda>(m00, m01, m10, m11).
     bind_py (getitem v 0) (\<lambda>v0. bind_py (getitem v 1) (\<lambda>v1.
       Inr [mod_py (m00 * v0 + m01 * v1) m, mod_py (m10 * v0 + m11 * v1) m])))"

definition determinant_2x2 :: "int list list \<Rightarrow> py_error + int" where
  "determinant_2x2 M =
     bind_py (entries_2x2 M) (\<lambda>(m00, m01, m10, m11). Inr (m00 * m11 - m01 * m10))"

definition matrix_inverse_mod_26 :: "int list list \<Rightarrow> py_error + int list list option" where
  "matrix_inverse_mod_26 M =
     bind_py (determinant_2x2 M) (\<lambda>det.
       let det_mod = mod_py det 26 in
       (case mod_inverse det_mod 26 of
          None \<Rightarrow> Inr None
        | Some det_inv \<Rightarrow>
            bind_py (entries_2x2 M) (\<lambda>(m00, m01, m10, m11).
              let adjugate = ((m11, - m01), (- m10, m00)) in
              Inr (Some
                [[mod_py (det_inv * fst (fst adjugate)) 26, mod_py (det_inv * snd (fst adjugate)) 26],
                 [mod_py (det_inv * fst (snd adjugate)) 26, mod_py (det_inv * snd (snd adjugate)) 26]]))))"

definition is_matrix_invertible_mod_26 :: "int list list \<Rightarrow> py_error + bool" where
  "is_matrix_invertible_mod_26 M =
     bind_py (determinant_2x2 M) (\<lambda>d. let det = mod_py d 26 in Inr (gcd_py det 26 = 1))"

section \<open>Caesar cipher (caesar.py)\<close>

text \<open>
  The result dictionary of \<open>encrypt\<close> and \<open>decrypt\<close> is a record whose fields are
  the dictionary's keys with the cipher's name in front. The \<open>steps\<close> trace
  (one record per letter, with a formatted description) is a projection of the same
  computation and does not feed back into \<open>result\<close>; it is left out, here and in the
  other ciphers. The \<open>for\<close> loop over the upper-cased text is a recursion that carries
  the \<open>result\<close> string built so far.
\<close>

record caesar_out =
  caesar_result :: str
  caesar_shift :: int
  caesar_operation :: string

fun caesar_encrypt_loop :: "int \<Rightarrow> str \<Rightarrow> str \<Rightarrow> str" where
  "caesar_encrypt_loop shift [] result = result"
| "caesar_encrypt_loop shift (char # rest) result =
     (if isalpha char then
        (let original_pos = ord char - ord_A;
             new_pos = mod_py (original_pos + shift) 26;
             new_char = chr (new_pos + ord_A)
         in caesar_encrypt_loop shift rest (result @ [new_char]))
      else caesar_encrypt_loop shift rest (result @ [char]))"

definition caesar_encrypt :: "str \<Rightarrow> int \<Rightarrow> caesar_out" where
  "caesar_encrypt plaintext shift0 =
     (let shift = mod_py shift0 26
      in \<lparr>caesar_result = caesar_encrypt_loop shift (upper plaintext) [],
          caesar_shift = shift, caesar_operation = ''encrypt''\<rparr>)"

fun caesar_decrypt_loop :: "int \<Rightarrow> str \<Rightarrow> str \<Rightarrow> str" where
  "caesar_decrypt_loop shift [] result = result"
| "caesar_decrypt_loop shift (char # rest) result =
     (if isalpha char then
        (let original_pos = ord char - ord_A;
             new_pos = mod_py (original_pos - shift) 26;
             new_char = chr (new_pos + ord_A)
         in caesar_decrypt_loop shift rest (result @ [new_char]))
      else caesar_decrypt_loop shift rest (result @ [char]))"

definition caesar_decrypt :: "str \<Rightarrow> int \<Rightarrow> caesar_out" where
  "caesar_decrypt ciphertext shift0 =
     (let shift = mod_py shift0 26
      in \<lparr>caesar_result = caesar_decrypt_loop shift (upper ciphertext) [],
          caesar_shift = shift, caesar_operation = ''decrypt''\<rparr>)"

section \<open>Affine cipher (affine.py)\<close>

text \<open>
  \<open>encrypt\<close> and \<open>decrypt\<close> return either the error dictionary (the message, which
  quotes the rejected \<open>a\<close>, and \<open>valid_a_values\<close>) or the result dictionary; the two
  shapes are the two constructors of \<open>affine_out\<close>. \<open>decrypt\<close> multiplies by
  \<open>a_inverse\<close>, which raises \<open>TypeError\<close> when \<open>get_inverse\<close> returned \<open>None\<close>.
\<close>

definition VALID_A_VALUES :: "int list" where
  "VALID_A_VALUES = [1, 3, 5, 7, 9, 11, 15, 17, 19, 21, 23, 25]"

definition is_valid_key :: "int \<Rightarrow> bool" where
  "is_valid_key a \<longleftrightarrow> gcd_py a 26 = 1"

definition get_inverse :: "int \<Rightarrow> int option" where
  "get_inverse a = mod_inverse a 26"

datatype affine_out =
    AffineError (affine_error_a: int) (affine_valid_a_values: "int list")
  | AffineResult (affine_result: str) (affine_key: "int \<times> int")
      (affine_a_inverse: "int option") (affine_operation: string)

fun affine_encrypt_loop :: "int \<Rightarrow> int \<Rightarrow> str \<Rightarrow> str \<Rightarrow> str" where
  "affine_encrypt_loop a b [] result = result"
| "affine_encrypt_loop a b (char # rest) result =
     (if isalpha char then
        (let x = ord char - ord_A;
             encrypted_pos = mod_py (a * x + b) 26;
             encrypted_char = chr (encrypted_pos + ord_A)
         in affine_encrypt_loop a b rest (result @ [encrypted_char]))
      else affine_encrypt_loop a b rest (result @ [char]))"

definition affine_encrypt :: "str \<Rightarrow> int \<Rightarrow> int \<Rightarrow> affine_out" where
  "affine_encrypt plaintext a b0 =
     (if \<not> is_valid_key a then AffineError a VALID_A_VALUES
      else (let b = mod_py b0 26;
                result = affine_encrypt_loop a b (upper plaintext) [];
                a_inverse = get_inverse a
            in AffineResult result (a, b) a_inverse ''encrypt''))"

fun affine_decrypt_loop :: "int option \<Rightarrow> int \<Rightarrow> str \<Rightarrow> str \<Rightarrow> py_error + str" where
  "affine_decrypt_loop a_inverse b [] result = Inr result"
| "affine_decrypt_loop a_inverse b (char # rest) result =
     (if isalpha char then
        (case a_inverse of
           None \<Rightarrow> Inl TypeError
         | Some a_inv \<Rightarrow>
             (let y = ord char - ord_A;
                  decrypted_pos = mod_py (a_inv * (y - b)) 26;
                  decrypted_char = chr (decrypted_pos + ord_A)
              in affine_decrypt_loop a_inverse b rest (result @ [decrypted_char])))
      else affine_decrypt_loop a_inverse b rest (result @ [char]))"

definition affine_decrypt :: "str \<Rightarrow> int \<Rightarrow> int \<Rightarrow> py_error + affine_out" where
  "affine_decrypt ciphertext a b0 =
     (if \<not> is_valid_key a then Inr (AffineError a VALID_A_VALUES)
      else (let a_inverse = get_inverse a;
                b = mod_py b0 26
            in bind_py (affine_decrypt_loop a_inverse b (upper ciphertext) [])
                 (\<lambda>result. Inr (AffineResult result (a, b) a_inverse ''decrypt''))))"

section \<open>Playfair cipher (playfair.py)\<close>

text \<open>
  The key square is a list of rows of one-character strings; a cell is its code
  point. \<open>add_chars\<close> is either of the two loops of \<open>generate_matrix\<close> (over the
  cleaned keyword, then over the 25-letter alphabet), carrying \<open>seen\<close> and
  \<open>matrix_chars\<close>.
\<close>

definition replace_J_I :: "str \<Rightarrow> str" where
  "replace_J_I s = map (\<lambda>c. if c = of_char CHR ''J'' then of_char CHR ''I'' else c) s"

fun add_chars :: "str \<Rightarrow> nat set \<times> str \<Rightarrow> nat set \<times> str" where
  "add_chars [] (seen, matrix_chars) = (seen, matrix_chars)"
| "add_chars (char # rest) (seen, matrix_chars) =
     (if char \<notin> seen then add_chars rest (insert char seen, matrix_chars @ [char])
      else add_chars rest (seen, matrix_chars))"

definition generate_matrix :: "str \<Rightarrow> nat list list" where
  "generate_matrix keyword0 =
     (let keyword = filter isalpha (replace_J_I (upper keyword0));
          (seen, matrix_chars) =
             add_chars (lit ''ABCDEFGHIKLMNOPQRSTUVWXYZ'') (add_chars keyword ({}, []))
      in map (\<lambda>i. take 5 (drop i matrix_chars)) [0, 5, 10, 15, 20])"

fun find_loop :: "nat list list \<Rightarrow> str \<Rightarrow> (int \<times> int) list \<Rightarrow> py_error + (int \<times> int)" where
  "find_loop matrix char [] = Inr (- 1, - 1)"
| "find_loop matrix char ((row, col) # rest) =
     bind_py (entry matrix row col) (\<lambda>cell.
       if [cell] = char then Inr (row, col) else find_loop matrix char rest)"

definition find_position :: "nat list list \<Rightarrow> nat \<Rightarrow> py_error + (int \<times> int)" where
  "find_position matrix char0 =
     (let char1 = upper [char0];
          char = (if char1 = lit ''J'' then lit ''I'' else char1)
      in find_loop matrix char
           (concat (map (\<lambda>row. map (\<lambda>col. (row, col)) [0, 1, 2, 3, 4]) [0, 1, 2, 3, 4])))"

text \<open>
  The \<open>while\<close> loop of \<open>prepare_text\<close> walks an index over the cleaned text; the
  recursion is on the text from that index on.
\<close>

fun digraph_loop :: "str \<Rightarrow> str list" where
  "digraph_loop [] = []"
| "digraph_loop [first] = [[first, of_char CHR ''X'']]"
| "digraph_loop (first # nxt # rest) =
     (if first = nxt then [first, of_char CHR ''X''] # digraph_loop (nxt # rest)
      else [first, nxt] # digraph_loop rest)"

definition playfair_prepare_text :: "str \<Rightarrow> str list" where
  "playfair_prepare_text text = digraph_loop (filter isalpha (replace_J_I (upper text)))"

text \<open>
  The result dictionaries of \<open>encrypt\<close> and \<open>decrypt\<close> share one record;
  \<open>prepared_text\<close> is a key of the \<open>encrypt\<close> dictionary only.
\<close>

record playfair_out =
  playfair_result :: str
  playfair_matrix :: "nat list list"
  playfair_keyword :: str
  playfair_prepared_text :: "str option"
  playfair_digraphs :: "str list"
  playfair_operation :: string

definition encrypt_digraph :: "nat list list \<Rightarrow> str \<Rightarrow> py_error + str" where
  "encrypt_digraph matrix digraph =
     bind_py (getitem digraph 0) (\<lambda>char1. bind_py (getitem digraph 1) (\<lambda>char2.
     bind_py (find_position matrix char1) (\<lambda>(row1, col1).
     bind_py (find_position matrix char2) (\<lambda>(row2, col2).
       if row1 = row2 then
         (let new_col1 = (col1 + 1) mod 5; new_col2 = (col2 + 1) mod 5
          in bind_py (entry matrix row1 new_col1) (\<lambda>x.
             bind_py (entry matrix row2 new_col2) (\<lambda>y. Inr [x, y])))
       else if col1 = col2 then
         (let new_row1 = (row1 + 1) mod 5; new_row2 = (row2 + 1) mod 5
          in bind_py (entry matrix new_row1 col1) (\<lambda>x.
             bind_py (entry matrix new_row2 col2) (\<lambda>y. Inr [x, y])))
       else
         bind_py (entry matrix row1 col2) (\<lambda>x.
         bind_py (entry matrix row2 col1) (\<lambda>y. Inr [x, y]))))))"

fun playfair_encrypt_loop :: "nat list list \<Rightarrow> str list \<Rightarrow> str \<Rightarrow> py_error + str" where
  "playfair_encrypt_loop matrix [] result = Inr result"
| "playfair_encrypt_loop matrix (digraph # rest) result =
     bind_py (encrypt_digraph matrix digraph)
       (\<lambda>encrypted. playfair_encrypt_loop matrix rest (result @ encrypted))"

definition playfair_encrypt :: "str \<Rightarrow> str \<Rightarrow> py_error + playfair_out" where
  "playfair_encrypt plaintext keyword =
     (let matrix = generate_matrix keyword;
          digraphs = playfair_prepare_text plaintext
      in bind_py (playfair_encrypt_loop matrix digraphs [])
           (\<lambda>result. Inr \<lparr>playfair_result = result, playfair_matrix = matrix,
                          playfair_keyword = upper keyword,
                          playfair_prepared_text = Some (concat digraphs),
                          playfair_digraphs = digraphs,
                          playfair_operation = ''encrypt''\<rparr>))"

text \<open>\<open>chunks2\<close> is \<open>[ciphertext[i:i + 2] for i in range(0, len(ciphertext), 2)]\<close>.\<close>

fun chunks2 :: "str \<Rightarrow> str list" where
  "chunks2 [] = []"
| "chunks2 [c] = [[c]]"
| "chunks2 (c1 # c2 # rest) = [c1, c2] # chunks2 rest"

definition decrypt_digraph :: "nat list list \<Rightarrow> str \<Rightarrow> py_error + str" where
  "decrypt_digraph matrix digraph =
     bind_py (getitem digraph 0) (\<lambda>char1. bind_py (getitem digraph 1) (\<lambda>char2.
     bind_py (find_position matrix char1) (\<lambda>(row1, col1).
     bind_py (find_position matrix char2) (\<lambda>(row2, col2).
       if row1 = row2 then
         (let new_col1 = (col1 - 1) mod 5; new_col2 = (col2 - 1) mod 5
          in bind_py (entry matrix row1 new_col1) (\<lambda>x.
             bind_py (entry matrix row2 new_col2) (\<lambda>y. Inr [x, y])))
       else if col1 = col2 then
         (let new_row1 = (row1 - 1) mod 5; new_row2 = (row2 - 1) mod 5
          in bind_py (entry matrix new_row1 col1) (\<lambda>x.
             bind_py (entry matrix new_row2 col2) (\<lambda>y. Inr [x, y])))
       else
         bind_py (entry matrix row1 col2) (\<lambda>x.
         bind_py (entry matrix row2 col1) (\<lambda>y. Inr [x, y]))))))"

fun playfair_decrypt_loop :: "nat list list \<Rightarrow> str list \<Rightarrow> str \<Rightarrow> py_error + str" where
  "playfair_decrypt_loop matrix [] result = Inr result"
| "playfair_decrypt_loop matrix (digraph # rest) result =
     (if length digraph < 2 then playfair_decrypt_loop matrix rest result
      else bind_py (decrypt_digraph matrix digraph)
             (\<lambda>decrypted. playfair_decrypt_loop matrix rest (result @ decrypted)))"

definition playfair_decrypt :: "str \<Rightarrow> str \<Rightarrow> py_error + playfair_out" where
  "playfair_decrypt ciphertext0 keyword =
     (let matrix = generate_matrix keyword;
          ciphertext = filter isalpha (replace_J_I (upper ciphertext0));
          digraphs = chunks2 ciphertext
      in bind_py (playfair_decrypt_loop matrix digraphs [])
           (\<lambda>result. Inr \<lparr>playfair_result = result, playfair_matrix = matrix,
                          playfair_keyword = upper keyword,
                          playfair_prepared_text = None,
                          playfair_digraphs = digraphs,
                          playfair_operation = ''decrypt''\<rparr>))"

section \<open>Hill cipher (hill.py)\<close>

text \<open>
  The formatted messages are kept as data: \<open>Matrix_not_invertible d g\<close> is the
  message "Matrix not invertible. gcd(d, 26) = g (not 1)". \<open>validate_matrix\<close>
  returns a dictionary whose numeric keys are absent when the shape test fails.
\<close>

datatype hill_msg = Matrix_must_be_2x2 | Matrix_not_invertible int int | Could_not_compute_inverse

datatype validation =
  Validation (v_valid: bool) (v_determinant: "int option") (v_determinant_mod_26: "int option")
    (v_gcd_with_26: "int option") (v_error: "hill_msg option")

definition validate_matrix :: "int list list \<Rightarrow> py_error + validation" where
  "validate_matrix matrix =
     (if length matrix \<noteq> 2 then Inr (Validation False None None None (Some Matrix_must_be_2x2))
      else if length (matrix ! 0) \<noteq> 2 then Inr (Validation False None None None (Some Matrix_must_be_2x2))
      else if length (matrix ! 1) \<noteq> 2 then Inr (Validation False None None None (Some Matrix_must_be_2x2))
      else
        bind_py (determinant_2x2 matrix) (\<lambda>det.
          let det_mod = mod_py det 26 in
          bind_py (is_matrix_invertible_mod_26 matrix) (\<lambda>is_invertible.
            Inr (Validation is_invertible (Some det) (Some det_mod) (Some (gcd_py det_mod 26))
                   (if is_invertible then None
                    else Some (Matrix_not_invertible det_mod (gcd_py det_mod 26)))))))"

definition hill_prepare_text :: "str \<Rightarrow> str" where
  "hill_prepare_text text0 =
     (let text = filter isalpha (upper text0)
      in if length text mod 2 \<noteq> 0 then text @ lit ''X'' else text)"

fun text_to_vectors :: "str \<Rightarrow> py_error + int list list" where
  "text_to_vectors [] = Inr []"
| "text_to_vectors [c] = Inl IndexError"
| "text_to_vectors (c1 # c2 # rest) =
     bind_py (text_to_vectors rest) (\<lambda>vectors. Inr ([ord c1 - ord_A, ord c2 - ord_A] # vectors))"

fun vectors_to_text :: "int list list \<Rightarrow> py_error + str" where
  "vectors_to_text [] = Inr []"
| "vectors_to_text (v # vs) =
     bind_py (getitem v 0) (\<lambda>v0. bind_py (getitem v 1) (\<lambda>v1.
     bind_py (vectors_to_text vs) (\<lambda>text. Inr (chr (v0 + ord_A) # chr (v1 + ord_A) # text))))"

datatype hill_out =
    HillError (hill_error: hill_msg)
  | HillResult (hill_result: str) (hill_key_matrix: "int list list")
      (hill_inverse_matrix: "int list list option") (hill_determinant: "int option")
      (hill_determinant_mod_26: "int option") (hill_prepared_text: str) (hill_operation: string)

text \<open>The loop of \<open>encrypt\<close> and of \<open>decrypt\<close>: one matrix-vector product per vector.\<close>

fun multiply_vectors :: "int list list \<Rightarrow> int list list \<Rightarrow> int list list \<Rightarrow> py_error + int list list" where
  "multiply_vectors M [] result_vectors = Inr result_vectors"
| "multiply_vectors M (vec # rest) result_vectors =
     bind_py (matrix_vector_multiply_mod M vec 26)
       (\<lambda>out_vec. multiply_vectors M rest (result_vectors @ [out_vec]))"

definition hill_encrypt :: "str \<Rightarrow> int list list \<Rightarrow> py_error + hill_out" where
  "hill_encrypt plaintext key_matrix =
     bind_py (validate_matrix key_matrix) (\<lambda>validation.
       if \<not> v_valid validation then
         (case v_error validation of Some msg \<Rightarrow> Inr (HillError msg) | None \<Rightarrow> Inl TypeError)
       else
         let prepared = hill_prepare_text plaintext in
         bind_py (text_to_vectors prepared) (\<lambda>vectors.
         bind_py (multiply_vectors key_matrix vectors []) (\<lambda>result_vectors.
         bind_py (vectors_to_text result_vectors) (\<lambda>result.
         bind_py (matrix_inverse_mod_26 key_matrix) (\<lambda>inverse_matrix.
           Inr (HillResult result key_matrix inverse_matrix (v_determinant validation)
                  (v_determinant_mod_26 validation) prepared ''encrypt''))))))"

definition hill_decrypt :: "str \<Rightarrow> int list list \<Rightarrow> py_error + hill_out" where
  "hill_decrypt ciphertext key_matrix =
     bind_py (validate_matrix key_matrix) (\<lambda>validation.
       if \<not> v_valid validation then
         (case v_error validation of Some msg \<Rightarrow> Inr (HillError msg) | None \<Rightarrow> Inl TypeError)
       else
         bind_py (matrix_inverse_mod_26 key_matrix) (\<lambda>inverse_opt.
           case inverse_opt of
             None \<Rightarrow> Inr (HillError Could_not_compute_inverse)
           | Some inverse_matrix \<Rightarrow>
               let prepared = hill_prepare_text ciphertext in
               bind_py (text_to_vectors prepared) (\<lambda>vectors.
               bind_py (multiply_vectors inverse_matrix vectors []) (\<lambda>result_vectors.
               bind_py (vectors_to_text result_vectors) (\<lambda>result.
                 Inr (HillResult result key_matrix (Some inverse_matrix) (v_determinant validation)
                        (v_determinant_mod_26 validation) prepared ''decrypt''))))))"

section \<open>Known-plaintext key recovery (hill.py, crack)\<close>

text \<open>
  \<open>window_matrix\<close> builds the matrix whose columns are the two digraphs of a
  four-character window; indexing a shorter window raises \<open>IndexError\<close>.
  \<open>try_crack_at_position\<close> returns \<open>None\<close> or the dictionary of the window it
  solved. Multiplying by \<open>P_inv\<close> raises \<open>TypeError\<close> if the inverse is \<open>None\<close>.
\<close>

definition window_matrix :: "str \<Rightarrow> py_error + int list list" where
  "window_matrix w =
     bind_py (getitem w 0) (\<lambda>w0. bind_py (getitem w 2) (\<lambda>w2.
     bind_py (getitem w 1) (\<lambda>w1. bind_py (getitem w 3) (\<lambda>w3.
       Inr [[ord w0 - ord_A, ord w2 - ord_A], [ord w1 - ord_A, ord w3 - ord_A]]))))"

record crack_window =
  cw_position :: nat
  cw_used_plaintext :: str
  cw_used_ciphertext :: str
  cw_key_matrix :: "int list list"
  cw_P :: "int list list"
  cw_C :: "int list list"
  cw_P_inv :: "int list list"
  cw_det_P :: int
  cw_det_P_mod :: int

definition try_crack_at_position :: "str \<Rightarrow> str \<Rightarrow> nat \<Rightarrow> py_error + crack_window option" where
  "try_crack_at_position plaintext ciphertext pos =
     (let p = take 4 (drop pos plaintext);
          c = take 4 (drop pos ciphertext)
      in if length p < 4 \<or> length c < 4 then Inr None
         else
           bind_py (window_matrix p) (\<lambda>P.
           bind_py (determinant_2x2 P) (\<lambda>det_P.
             let det_P_mod = mod_py det_P 26 in
             if gcd_py det_P_mod 26 \<noteq> 1 then Inr None
             else
               bind_py (window_matrix c) (\<lambda>C.
               bind_py (matrix_inverse_mod_26 P) (\<lambda>P_inv_opt.
                 case P_inv_opt of
                   None \<Rightarrow> Inl TypeError
                 | Some P_inv \<Rightarrow>
                     bind_py (matrix_multiply_mod C P_inv 26) (\<lambda>K.
                       Inr (Some \<lparr>cw_position = pos, cw_used_plaintext = p,
                                  cw_used_ciphertext = c, cw_key_matrix = K, cw_P = P,
                                  cw_C = C, cw_P_inv = P_inv, cw_det_P = det_P,
                                  cw_det_P_mod = det_P_mod\<rparr>)))))))"

text \<open>
  One entry of \<open>tried_positions\<close>. The \<open>reason\<close> string is kept as data:
  \<open>Gcd_not_one d g\<close> is "gcd(d, 26) = g (not 1)".
\<close>

datatype reason = Gcd_not_one int int | Matrix_is_invertible

record tried =
  tried_position :: nat
  tried_plaintext :: str
  tried_ciphertext :: str
  tried_invertible :: bool
  tried_reason :: reason

text \<open>
  The search loop \<open>for pos in range(0, min_len - 3, 2)\<close> with its \<open>break\<close>: it
  returns the log and the result of the window it stopped at, if any.
\<close>

function crack_loop :: "str \<Rightarrow> str \<Rightarrow> nat \<Rightarrow> nat \<Rightarrow> tried list \<Rightarrow> py_error + (tried list \<times> crack_window option)" where
  "crack_loop plaintext_full ciphertext_full min_len pos tried_positions =
     (if int pos < int min_len - 3 then
        bind_py (try_crack_at_position plaintext_full ciphertext_full pos) (\<lambda>result.
          let p_window = take 4 (drop pos plaintext_full);
              c_window = take 4 (drop pos ciphertext_full)
          in case result of
               None \<Rightarrow>
                 bind_py (window_matrix p_window) (\<lambda>P.
                 bind_py (determinant_2x2 P) (\<lambda>det_P.
                   let det_P_mod = mod_py det_P 26 in
                   crack_loop plaintext_full ciphertext_full min_len (pos + 2)
                     (tried_positions @
                        [\<lparr>tried_position = pos, tried_plaintext = p_window,
                          tried_ciphertext = c_window, tried_invertible = False,
                          tried_reason = Gcd_not_one det_P_mod (gcd_py det_P_mod 26)\<rparr>])))
             | Some found \<Rightarrow>
                 Inr (tried_positions @
                        [\<lparr>tried_position = pos, tried_plaintext = p_window,
                          tried_ciphertext = c_window, tried_invertible = True,
                          tried_reason = Matrix_is_invertible\<rparr>],
                      Some found))
      else Inr (tried_positions, None))"
  by pat_completeness auto
termination
  by (relation "measure (\<lambda>(pf, cf, min_len, pos, tried_positions). min_len - pos)") auto

text \<open>
  The \<open>steps\<close> list of \<open>crack\<close>, without the formatted descriptions. The returned
  dictionary is \<open>CrackFailed\<close> when it has an \<open>error\<close> key (too little text, or no
  invertible window) and \<open>CrackDone\<close> when a key was computed.
\<close>

datatype crack_step =
    Search_step "tried list"
  | Form_P "int list list"
  | Form_C "int list list"
  | Det_step int int
  | P_inv_step "int list list"
  | Key_step "int list list"
  | Verify_step str bool

datatype crack_msg = Need_at_least_4_characters | No_invertible_plaintext_matrix_found

record verification =
  ver_encrypted :: str
  ver_expected :: str
  ver_match :: bool

datatype crack_out =
    CrackFailed (crack_error: crack_msg) (crack_success: bool) (crack_steps: "crack_step list option")
      (crack_positions_tried: "tried list option") (crack_suggestion: "string option")
  | CrackDone (crack_success: bool) (crack_key_matrix: "int list list")
      (crack_steps_done: "crack_step list") (crack_known_plaintext: str)
      (crack_known_ciphertext: str) (crack_used_window: "nat \<times> str \<times> str")
      (crack_verification: verification)

definition search_steps :: "tried list \<Rightarrow> crack_step list" where
  "search_steps tried_positions =
     (if length tried_positions > 1 \<or>
         (length tried_positions = 1 \<and> \<not> tried_invertible (tried_positions ! 0))
      then [Search_step tried_positions] else [])"

definition verification_result :: "hill_out \<Rightarrow> str" where
  "verification_result v = (case v of HillResult r _ _ _ _ _ _ \<Rightarrow> r | HillError _ \<Rightarrow> [])"

definition crack :: "str \<Rightarrow> str \<Rightarrow> py_error + crack_out" where
  "crack known_plaintext known_ciphertext =
     (let plaintext_full0 = hill_prepare_text known_plaintext;
          ciphertext_full0 = hill_prepare_text known_ciphertext
      in if length plaintext_full0 < 4 \<or> length ciphertext_full0 < 4
         then Inr (CrackFailed Need_at_least_4_characters False None None None)
         else
           let min_len = min (length plaintext_full0) (length ciphertext_full0);
               plaintext_full = take min_len plaintext_full0;
               ciphertext_full = take min_len ciphertext_full0
           in bind_py (crack_loop plaintext_full ciphertext_full min_len 0 [])
                (\<lambda>(tried_positions, crack_result).
                   let steps = search_steps tried_positions in
                   case crack_result of
                     None \<Rightarrow>
                       Inr (CrackFailed No_invertible_plaintext_matrix_found False (Some steps)
                              (Some tried_positions)
                              (Some ''Try a longer plaintext-ciphertext pair with different letter combinations''))
                   | Some found \<Rightarrow>
                       let K = cw_key_matrix found in
                       bind_py (hill_encrypt plaintext_full K) (\<lambda>verification.
                         let is_correct = (verification_result verification = ciphertext_full)
                         in Inr (CrackDone is_correct K
                                   (steps @ [Form_P (cw_P found), Form_C (cw_C found),
                                             Det_step (cw_det_P found) (cw_det_P_mod found),
                                             P_inv_step (cw_P_inv found), Key_step K,
                                             Verify_step ciphertext_full is_correct])
                                   plaintext_full ciphertext_full
                                   (cw_position found, cw_used_plaintext found, cw_used_ciphertext found)
                                   \<lparr>ver_encrypted = verification_result verification,
                                    ver_expected = ciphertext_full,
                                    ver_match = is_correct\<rparr>))))"

section \<open>Auxiliary predicates\<close>

text \<open>The upper-case ASCII letters A..Z, and the ASCII letters of either case.\<close>

definition ascii_upper :: "nat \<Rightarrow> bool" where
  "ascii_upper c \<longleftrightarrow> 65 \<le> c \<and> c \<le> 90"

definition ascii_letter :: "nat \<Rightarrow> bool" where
  "ascii_letter c \<longleftrightarrow> (65 \<le> c \<and> c \<le> 90) \<or> (97 \<le> c \<and> c \<le> 122)"

text \<open>What one pass of the Caesar loops does to a single character.\<close>

definition enc_char :: "int \<Rightarrow> nat \<Rightarrow> nat" where
  "enc_char s c = (if isalpha c then chr (mod_py (ord c - ord_A + s) 26 + ord_A) else c)"

definition dec_char :: "int \<Rightarrow> nat \<Rightarrow> nat" where
  "dec_char s c = (if isalpha c then chr (mod_py (ord c - ord_A - s) 26 + ord_A) else c)"

section \<open>Verification: text and arithmetic\<close>

lemma mod_py_26: "mod_py n 26 = n mod 26"
  by (simp add: mod_py_def)

lemma ord_A_65: "ord_A = 65"
  by (simp add: ord_A_def ord_def)

lemma ascii_upper_isalpha: "ascii_upper c \<Longrightarrow> isalpha c"
  by (simp add: ascii_upper_def isalpha_def)

lemma upper_char_ascii_letter:
  "ascii_letter c \<Longrightarrow> \<exists>u. upper_char c = [u] \<and> ascii_upper u"
  by (auto simp: ascii_letter_def ascii_upper_def upper_char_def)

lemma upper_ascii_letters:
  "\<forall>c\<in>set T. ascii_letter c \<Longrightarrow> \<forall>c\<in>set (upper T). ascii_upper c"
proof (induction T)
  case Nil
  then show ?case by (simp add: upper_def)
next
  case (Cons a T)
  from Cons.prems obtain u where u: "upper_char a = [u]" "ascii_upper u"
    using upper_char_ascii_letter[of a] by auto
  from Cons have "\<forall>c\<in>set (upper T). ascii_upper c" by simp
  with u show ?case by (simp add: upper_def)
qed

lemma upper_ascii_upper: "\<forall>c\<in>set T. ascii_upper c \<Longrightarrow> upper T = T"
  unfolding upper_def by (induction T) (auto simp: ascii_upper_def upper_char_def)

section \<open>Verification: Caesar cipher\<close>

lemma caesar_char_roundtrip:
  assumes "ascii_upper c"
  shows "chr (mod_py (ord (chr (mod_py (ord c - ord_A + s) 26 + ord_A)) - ord_A - s) 26 + ord_A) = c"
    and "ascii_upper (chr (mod_py (ord c - ord_A + s) 26 + ord_A))"
proof -
  have r: "0 \<le> (int c - 65 + s) mod 26" "(int c - 65 + s) mod 26 < 26" by simp_all
  have "((int c - 65 + s) mod 26 - s) mod 26 = (int c - 65) mod 26"
    by (metis add_diff_cancel_right' mod_diff_left_eq)
  also have "\<dots> = int c - 65" using assms by (simp add: ascii_upper_def)
  finally have e: "((int c - 65 + s) mod 26 - s) mod 26 = int c - 65" .
  show "chr (mod_py (ord (chr (mod_py (ord c - ord_A + s) 26 + ord_A)) - ord_A - s) 26 + ord_A) = c"
    using r e by (simp add: mod_py_26 ord_A_65 ord_def chr_def)
  show "ascii_upper (chr (mod_py (ord c - ord_A + s) 26 + ord_A))"
    using r by (simp add: mod_py_26 ord_A_65 ord_def chr_def ascii_upper_def) linarith
qed

lemma enc_char_upper: "ascii_upper c \<Longrightarrow> ascii_upper (enc_char s c)"
  by (simp add: enc_char_def ascii_upper_isalpha caesar_char_roundtrip(2))

lemma dec_enc_char: "ascii_upper c \<Longrightarrow> dec_char s (enc_char s c) = c"
  using enc_char_upper[of c s] caesar_char_roundtrip(1)[of c s]
  by (simp add: dec_char_def ascii_upper_isalpha) (simp add: enc_char_def ascii_upper_isalpha)

lemma dec_enc_map: "\<forall>c\<in>set U. ascii_upper c \<Longrightarrow> map (dec_char s) (map (enc_char s) U) = U"
  by (induction U) (simp_all add: dec_enc_char)

lemma enc_map_upper: "\<forall>c\<in>set U. ascii_upper c \<Longrightarrow> \<forall>c\<in>set (map (enc_char s) U). ascii_upper c"
  by (simp add: enc_char_upper)

lemma caesar_encrypt_loop_map: "caesar_encrypt_loop s cs acc = acc @ map (enc_char s) cs"
  by (induction cs arbitrary: acc) (simp_all add: Let_def enc_char_def)

lemma caesar_decrypt_loop_map: "caesar_decrypt_loop s cs acc = acc @ map (dec_char s) cs"
  by (induction cs arbitrary: acc) (simp_all add: Let_def dec_char_def)

lemma caesar_roundtrip_upper:
  assumes "\<forall>c\<in>set U. ascii_upper c"
  shows "caesar_decrypt_loop s (upper (caesar_encrypt_loop s U [])) [] = U"
  using upper_ascii_upper[OF enc_map_upper[OF assms, of s]] dec_enc_map[OF assms, of s]
  by (simp add: caesar_encrypt_loop_map caesar_decrypt_loop_map)

text \<open>
  Claim C6, as amended. \<open>encrypt\<close> and \<open>decrypt\<close> both upper-case their input, so
  for every shift in 0..25 and every text of ASCII letters the round trip
  \<open>decrypt(encrypt(T, s).result, s).result\<close> is \<open>T.upper()\<close>: it is \<open>T\<close> itself when
  \<open>T\<close> has no lower-case letter.
\<close>

theorem caesar_round_trip:
  assumes "0 \<le> s" "s \<le> 25" "\<forall>c\<in>set T. ascii_letter c"
  shows "caesar_result (caesar_decrypt (caesar_result (caesar_encrypt T s)) s) = upper T"
  using caesar_roundtrip_upper[OF upper_ascii_letters[OF assms(3)]]
  by (simp add: caesar_encrypt_def caesar_decrypt_def Let_def)

theorem caesar_round_trip_witness:
  "caesar_result (caesar_decrypt (caesar_result (caesar_encrypt (lit ''Attack'') 3)) 3) = lit ''ATTACK''"
  using caesar_round_trip[of 3 "lit ''Attack''"]
  by (simp add: lit_def ascii_letter_def upper_def upper_char_def)

text \<open>
  Claim C6 as stated fails on a lower-case text: with shift 3, \<open>"abc"\<close> encrypts to
  \<open>"DEF"\<close> and decrypts to \<open>"ABC"\<close>, not to \<open>"abc"\<close>.
\<close>

theorem caesar_round_trip_counterexample:
  "caesar_result (caesar_decrypt (caesar_result (caesar_encrypt (lit ''abc'') 3)) 3) \<noteq> lit ''abc''"
  by (simp add: caesar_encrypt_def caesar_decrypt_def Let_def lit_def upper_def upper_char_def
      isalpha_def mod_py_def ord_A_def ord_def chr_def)

section \<open>Verification: Playfair cipher\<close>

text \<open>
  Claim C5. With keyword "PLAYFAIR" the text "HELLO" is prepared as the digraphs
  "HE", "LX", "LO" (the filler breaks "LL" and the second "L" is paired with "O"),
  encrypts to "KGYVRV", and that ciphertext decrypts with the same keyword to the
  prepared form "HELXLO".
\<close>

theorem playfair_hello_round_trip:
  "playfair_prepare_text (lit ''HELLO'') = [lit ''HE'', lit ''LX'', lit ''LO''] \<and>
   bind_py (playfair_encrypt (lit ''HELLO'') (lit ''PLAYFAIR''))
     (\<lambda>e. bind_py (playfair_decrypt (playfair_result e) (lit ''PLAYFAIR''))
        (\<lambda>d. Inr (playfair_result e, playfair_result d))) =
   Inr (lit ''KGYVRV'', lit ''HELXLO'')"
  by code_simp

lemma digraph_loop_X:
  "digraph_loop (replicate (Suc n) (of_char CHR ''X'')) = replicate (Suc n) (lit ''XX'')"
  by (induction n) (simp_all add: lit_def)

lemma clean_X:
  "filter isalpha (replace_J_I (upper (replicate n (of_char CHR ''X'')))) =
   replicate n (of_char CHR ''X'')"
  by (induction n) (simp_all add: upper_def upper_char_def replace_J_I_def isalpha_def)

text \<open>
  Claim C10. \<open>prepare_text("XX")\<close> is the two digraphs "XX", "XX"; more generally a
  run of \<open>n + 1\<close> letters X is prepared as \<open>n + 1\<close> digraphs "XX". So some input
  yields a digraph whose two characters are equal: the filler is the repeated
  letter itself.
\<close>

theorem prepare_text_identical_digraph:
  "playfair_prepare_text (lit ''XX'') = [lit ''XX'', lit ''XX''] \<and>
   (\<forall>n. playfair_prepare_text (replicate (Suc n) (of_char CHR ''X'')) =
        replicate (Suc n) (lit ''XX'')) \<and>
   (\<exists>t d. d \<in> set (playfair_prepare_text t) \<and> length d = 2 \<and> d ! 0 = d ! 1)"
proof -
  have 1: "playfair_prepare_text (lit ''XX'') = [lit ''XX'', lit ''XX'']" by code_simp
  have 2: "\<forall>n. playfair_prepare_text (replicate (Suc n) (of_char CHR ''X'')) =
             replicate (Suc n) (lit ''XX'')"
    unfolding playfair_prepare_text_def clean_X by (simp only: digraph_loop_X) simp
  have "lit ''XX'' \<in> set (playfair_prepare_text (lit ''XX'')) \<and> length (lit ''XX'') = 2
        \<and> lit ''XX'' ! 0 = lit ''XX'' ! 1"
    unfolding 1 by (simp add: lit_def)
  then have 3: "\<exists>t d. d \<in> set (playfair_prepare_text t) \<and> length d = 2 \<and> d ! 0 = d ! 1"
    by blast
  from 1 2 3 show ?thesis by blast
qed

text \<open>
  Claim C7 at the keyword made of the one letter U+00E9 (e with acute accent).
  \<open>upper\<close> turns it into U+00C9, which \<open>isalpha\<close> accepts, so it takes the first
  cell; the 25 letters of the alphabet follow, \<open>matrix_chars\<close> has 26 entries and the
  five rows keep the first 25: Z is not in the grid and U+00C9 is.
\<close>

theorem generate_matrix_e_acute:
  "generate_matrix [233] =
     [[201, 65, 66, 67, 68], [69, 70, 71, 72, 73], [75, 76, 77, 78, 79],
      [80, 81, 82, 83, 84], [85, 86, 87, 88, 89]] \<and>
   of_char CHR ''Z'' \<notin> set (concat (generate_matrix [233])) \<and>
   201 \<in> set (concat (generate_matrix [233]))"
  by code_simp

section \<open>Verification: Hill key recovery on "HELP"\<close>

text \<open>
  Claim C2. Encrypting "HELP" with the key [[3,3],[2,5]] and handing the
  plaintext and that ciphertext ("HIAT") to \<open>crack\<close> returns the dictionary with
  \<open>success\<close> true and \<open>key_matrix\<close> [[3,3],[2,5]], found at offset 0.
\<close>

theorem crack_recovers_help_key:
  "bind_py (hill_encrypt (lit ''HELP'') [[3, 3], [2, 5]])
     (\<lambda>e. crack (lit ''HELP'') (hill_result e)) =
   Inr (CrackDone True [[3, 3], [2, 5]]
          [Form_P [[7, 11], [4, 15]], Form_C [[7, 0], [8, 19]], Det_step 61 9,
           P_inv_step [[19, 19], [14, 21]], Key_step [[3, 3], [2, 5]],
           Verify_step (lit ''HIAT'') True]
          (lit ''HELP'') (lit ''HIAT'') (0, lit ''HELP'', lit ''HIAT'')
          \<lparr>ver_encrypted = lit ''HIAT'', ver_expected = lit ''HIAT'', ver_match = True\<rparr>)"
  by code_simp

end
